theory Spec2Isabelle
  imports Main
begin

section \<open>Values of the host language\<close>

text \<open>
  \<^verbatim>\<open>command-args-viewer.ts\<close> catches what a command throws as \<^verbatim>\<open>error: any\<close>, so the
  thrown value can be any JavaScript value. The fragment below has the two nullish values,
  primitives, and plain objects as association lists from property names to values (the
  first binding of a name is the property's value). Getters, proxies and properties
  added to the built-in prototypes are outside the fragment.
\<close>

datatype js_value =
    JUndefined
  | JNull
  | JBool bool
  | JNum int
  | JStr string
  | JObj "(string \<times> js_value) list"

text \<open>
  What \<^verbatim>\<open>analyzeCommand\<close> can raise: a rejection of the host that it lets through, or
  the \<^verbatim>\<open>TypeError\<close> that the language raises when a property of \<^verbatim>\<open>null\<close> or
  \<^verbatim>\<open>undefined\<close> is read.
\<close>

datatype raised =
    Rejection js_value
  | TypeError

text \<open>
  The expression \<^verbatim>\<open>error.message\<close> (line 95). Reading a property of \<^verbatim>\<open>undefined\<close> or
  \<^verbatim>\<open>null\<close> raises; a boolean, a number or a string has no property \<^verbatim>\<open>message\<close> and the
  read yields \<^verbatim>\<open>undefined\<close>; an object yields the property's value, \<^verbatim>\<open>undefined\<close> when
  it has none.
\<close>

fun message_of :: "js_value \<Rightarrow> raised + js_value" where
  "message_of JUndefined = Inl TypeError"
| "message_of JNull = Inl TypeError"
| "message_of (JBool b) = Inr JUndefined"
| "message_of (JNum n) = Inr JUndefined"
| "message_of (JStr s) = Inr JUndefined"
| "message_of (JObj props) =
     Inr (case map_of props ''message'' of None \<Rightarrow> JUndefined | Some v \<Rightarrow> v)"

text \<open>Whether a value is an object, in the sense in which \<^verbatim>\<open>null\<close> is none.\<close>

fun is_object :: "js_value \<Rightarrow> bool" where
  "is_object (JObj props) = True"
| "is_object v = False"

section \<open>The command registry of the host\<close>

text \<open>
  \<^verbatim>\<open>vscode.commands\<close> is the one external capability. Both calls are awaited, so each
  either resolves with a value or rejects with a thrown value (\<open>Inl\<close>), and each may change
  the state \<open>'s\<close> of the host. \<open>executeCommand h c\<close> is the call
  \<^verbatim>\<open>vscode.commands.executeCommand(c)\<close>, with no further argument. A call that never
  settles is not modelled.
\<close>

record 's host =
  getCommands :: "'s \<Rightarrow> (js_value + string list) \<times> 's"
  executeCommand :: "string \<Rightarrow> 's \<Rightarrow> (js_value + js_value) \<times> 's"

text \<open>The calls made to the host, in the order they are made.\<close>

datatype host_call =
    GetCommands
  | ExecuteCommand string

text \<open>\<^verbatim>\<open>Array.prototype.includes\<close> on an array of strings: a scan from the front.\<close>

fun array_includes :: "string list \<Rightarrow> string \<Rightarrow> bool" where
  "array_includes [] x = False"
| "array_includes (y # ys) x = (y = x \<or> array_includes ys x)"

section \<open>The operations\<close>

text \<open>
  The object \<^verbatim>\<open>analyzeCommand\<close> resolves with. \<open>errorMessage\<close> is \<open>None\<close> where the object
  literal has no such property (lines 85 and 90) and \<open>Some v\<close> where it has one holding
  \<open>v\<close> (line 95), which may be \<^verbatim>\<open>undefined\<close>.
\<close>

record probe_result =
  exists :: bool
  canExecuteWithoutArgs :: bool
  errorMessage :: "js_value option"

text \<open>
  Reading \<^verbatim>\<open>result.errorMessage\<close>, and whether the optional field holds a value: a missing
  property and a property holding \<^verbatim>\<open>undefined\<close> read the same.
\<close>

definition read_errorMessage :: "probe_result \<Rightarrow> js_value" where
  "read_errorMessage r = (case errorMessage r of None \<Rightarrow> JUndefined | Some v \<Rightarrow> v)"

definition errorMessage_present :: "probe_result \<Rightarrow> bool" where
  "errorMessage_present r = (read_errorMessage r \<noteq> JUndefined)"

text \<open>
  \<^verbatim>\<open>getAllCommands\<close> (lines 18--20): the awaited enumeration is returned as it is; a
  rejection leaves the function as it came.
\<close>

definition getAllCommands :: "'s host \<Rightarrow> 's \<Rightarrow> (raised + string list) \<times> host_call list \<times> 's" where
  "getAllCommands h s =
     (case getCommands h s of
        (Inl e, s1) \<Rightarrow> (Inl (Rejection e), [GetCommands], s1)
      | (Inr allCommands, s1) \<Rightarrow> (Inr allCommands, [GetCommands], s1))"

text \<open>
  \<^verbatim>\<open>analyzeCommand\<close> (lines 76--98). The result comes with the calls made to the host and
  the host's state afterwards. The enumeration is awaited outside the \<^verbatim>\<open>try\<close>; the
  \<^verbatim>\<open>catch\<close> clause builds its object from \<^verbatim>\<open>error.message\<close>, and what that read raises
  leaves the function.
\<close>

definition analyzeCommand ::
  "'s host \<Rightarrow> string \<Rightarrow> 's \<Rightarrow> (raised + probe_result) \<times> host_call list \<times> 's" where
  "analyzeCommand h commandId s =
     (case getCommands h s of
        (Inl e, s1) \<Rightarrow> (Inl (Rejection e), [GetCommands], s1)
      | (Inr allCommands, s1) \<Rightarrow>
          if \<not> array_includes allCommands commandId
          then (Inr \<lparr>exists = False, canExecuteWithoutArgs = False, errorMessage = None\<rparr>,
                [GetCommands], s1)
          else
            (case executeCommand h commandId s1 of
               (Inr v, s2) \<Rightarrow>
                 (Inr \<lparr>exists = True, canExecuteWithoutArgs = True, errorMessage = None\<rparr>,
                  [GetCommands, ExecuteCommand commandId], s2)
             | (Inl error, s2) \<Rightarrow>
                 (case message_of error of
                    Inl t \<Rightarrow> (Inl t, [GetCommands, ExecuteCommand commandId], s2)
                  | Inr m \<Rightarrow>
                      (Inr \<lparr>exists = True, canExecuteWithoutArgs = False, errorMessage = Some m\<rparr>,
                       [GetCommands, ExecuteCommand commandId], s2))))"

section \<open>Hosts for the scenarios\<close>

text \<open>
  A registry that enumerates \<open>cmds\<close>, settles every invocation as \<open>outcome\<close>, and
  counts the invocations in its state.
\<close>

definition scripted_host :: "string list \<Rightarrow> js_value + js_value \<Rightarrow> nat host" where
  "scripted_host cmds outcome =
     \<lparr>getCommands = (\<lambda>s. (Inr cmds, s)),
      executeCommand = (\<lambda>c s. (outcome, Suc s))\<rparr>"

text \<open>A registry that cannot be reached: the enumeration rejects with \<open>e\<close>.\<close>

definition unreachable_host :: "js_value \<Rightarrow> nat host" where
  "unreachable_host e =
     \<lparr>getCommands = (\<lambda>s. (Inl e, s)),
      executeCommand = (\<lambda>c s. (Inr JUndefined, Suc s))\<rparr>"

section \<open>Basic facts\<close>

lemma array_includes_iff: "array_includes xs x \<longleftrightarrow> x \<in> set xs"
  by (induction xs) auto

lemma scripted_getCommands: "getCommands (scripted_host cmds outcome) s = (Inr cmds, s)"
  by (simp add: scripted_host_def)

lemma scripted_executeCommand: "executeCommand (scripted_host cmds outcome) c s = (outcome, Suc s)"
  by (simp add: scripted_host_def)

lemma unreachable_getCommands: "getCommands (unreachable_host e) s = (Inl e, s)"
  by (simp add: unreachable_host_def)

text \<open>The three ways through \<^verbatim>\<open>analyzeCommand\<close> once the enumeration has resolved.\<close>

lemma analyzeCommand_absent:
  assumes "getCommands h s = (Inr allCommands, s1)"
    and "commandId \<notin> set allCommands"
  shows "analyzeCommand h commandId s =
    (Inr \<lparr>exists = False, canExecuteWithoutArgs = False, errorMessage = None\<rparr>,
     [GetCommands], s1)"
  using assms by (simp add: analyzeCommand_def array_includes_iff)

lemma analyzeCommand_resolved:
  assumes "getCommands h s = (Inr allCommands, s1)"
    and "commandId \<in> set allCommands"
    and "executeCommand h commandId s1 = (Inr v, s2)"
  shows "analyzeCommand h commandId s =
    (Inr \<lparr>exists = True, canExecuteWithoutArgs = True, errorMessage = None\<rparr>,
     [GetCommands, ExecuteCommand commandId], s2)"
  using assms by (simp add: analyzeCommand_def array_includes_iff)

lemma analyzeCommand_rejected:
  assumes "getCommands h s = (Inr allCommands, s1)"
    and "commandId \<in> set allCommands"
    and "executeCommand h commandId s1 = (Inl error, s2)"
  shows "analyzeCommand h commandId s =
    (case message_of error of
       Inl t \<Rightarrow> (Inl t, [GetCommands, ExecuteCommand commandId], s2)
     | Inr m \<Rightarrow>
         (Inr \<lparr>exists = True, canExecuteWithoutArgs = False, errorMessage = Some m\<rparr>,
          [GetCommands, ExecuteCommand commandId], s2))"
  using assms by (simp add: analyzeCommand_def array_includes_iff)

lemma analyzeCommand_unreachable:
  assumes "getCommands h s = (Inl e, s1)"
  shows "analyzeCommand h commandId s = (Inl (Rejection e), [GetCommands], s1)"
  using assms by (simp add: analyzeCommand_def)

lemma message_of_nullish: "message_of error = Inl t \<longleftrightarrow> (error = JUndefined \<or> error = JNull) \<and> t = TypeError"
  by (cases error) auto

section \<open>Unregistered identifiers\<close>

text \<open>
  C1. When the identifier is not in the enumeration the registry returns, \<^verbatim>\<open>analyzeCommand\<close>
  returns \<open>exists = false\<close>, \<open>canExecuteWithoutArgs = false\<close> and no \<open>errorMessage\<close>; the
  only call made to the host is the enumeration, so the invoker is not called and the
  host is left in the state the enumeration left it in.
\<close>

theorem analyzeCommand_unregistered:
  assumes "getCommands h s = (Inr allCommands, s1)"
    and "commandId \<notin> set allCommands"
  shows "analyzeCommand h commandId s =
           (Inr \<lparr>exists = False, canExecuteWithoutArgs = False, errorMessage = None\<rparr>,
            [GetCommands], s1)
       \<and> (\<forall>c. ExecuteCommand c \<notin> set (fst (snd (analyzeCommand h commandId s))))"
  using analyzeCommand_absent [OF assms] by simp

theorem analyzeCommand_unregistered_witness:
  "analyzeCommand (scripted_host [''alpha.run''] (Inr JUndefined)) ''beta.missing'' 0 =
     (Inr \<lparr>exists = False, canExecuteWithoutArgs = False, errorMessage = None\<rparr>,
      [GetCommands], 0)"
proof -
  have enum: "getCommands (scripted_host [''alpha.run''] (Inr JUndefined)) 0 =
      (Inr [''alpha.run''], 0)"
    by (rule scripted_getCommands)
  have absent: "''beta.missing'' \<notin> set [''alpha.run'']"
    by simp
  from analyzeCommand_unregistered [OF enum absent] show ?thesis
    by (rule conjunct1)
qed

section \<open>Registered identifiers\<close>

text \<open>
  C2. When the identifier is in the enumeration and its invocation with no argument
  resolves, \<^verbatim>\<open>analyzeCommand\<close> returns \<open>exists = true\<close>, \<open>canExecuteWithoutArgs = true\<close> and
  no \<open>errorMessage\<close>.
\<close>

theorem analyzeCommand_invocation_succeeds:
  assumes "getCommands h s = (Inr allCommands, s1)"
    and "commandId \<in> set allCommands"
    and "executeCommand h commandId s1 = (Inr v, s2)"
  shows "analyzeCommand h commandId s =
           (Inr \<lparr>exists = True, canExecuteWithoutArgs = True, errorMessage = None\<rparr>,
            [GetCommands, ExecuteCommand commandId], s2)"
  using assms by (rule analyzeCommand_resolved)

theorem analyzeCommand_invocation_succeeds_witness:
  "analyzeCommand (scripted_host [''alpha.run''] (Inr (JNum 7))) ''alpha.run'' 0 =
     (Inr \<lparr>exists = True, canExecuteWithoutArgs = True, errorMessage = None\<rparr>,
      [GetCommands, ExecuteCommand ''alpha.run''], 1)"
proof -
  have enum: "getCommands (scripted_host [''alpha.run''] (Inr (JNum 7))) 0 =
      (Inr [''alpha.run''], 0)"
    by (rule scripted_getCommands)
  have registered: "''alpha.run'' \<in> set [''alpha.run'']"
    by simp
  have invoked: "executeCommand (scripted_host [''alpha.run''] (Inr (JNum 7))) ''alpha.run'' 0 =
      (Inr (JNum 7), 1)"
    by (simp add: scripted_executeCommand)
  show ?thesis
    by (rule analyzeCommand_invocation_succeeds [OF enum registered invoked])
qed

text \<open>
  C3. When the identifier is in the enumeration and its invocation with no argument
  fails with an error object whose \<open>message\<close> is \<open>M\<close>, \<^verbatim>\<open>analyzeCommand\<close> returns
  \<open>exists = true\<close>, \<open>canExecuteWithoutArgs = false\<close> and \<open>errorMessage = M\<close>, the very
  value the error carries.
\<close>

theorem analyzeCommand_invocation_fails:
  assumes "getCommands h s = (Inr allCommands, s1)"
    and "commandId \<in> set allCommands"
    and "executeCommand h commandId s1 = (Inl (JObj props), s2)"
    and "map_of props ''message'' = Some M"
  shows "analyzeCommand h commandId s =
           (Inr \<lparr>exists = True, canExecuteWithoutArgs = False, errorMessage = Some M\<rparr>,
            [GetCommands, ExecuteCommand commandId], s2)"
  using analyzeCommand_rejected [OF assms(1-3)] assms(4) by simp

theorem analyzeCommand_invocation_fails_witness:
  "analyzeCommand
     (scripted_host [''gamma.format'']
        (Inl (JObj [(''name'', JStr ''Error''),
                    (''message'', JStr ''Argument 'uri' is required'')])))
     ''gamma.format'' 0 =
     (Inr \<lparr>exists = True, canExecuteWithoutArgs = False,
           errorMessage = Some (JStr ''Argument 'uri' is required'')\<rparr>,
      [GetCommands, ExecuteCommand ''gamma.format''], 1)"
proof -
  let ?props = "[(''name'', JStr ''Error''), (''message'', JStr ''Argument 'uri' is required'')]"
  have enum: "getCommands (scripted_host [''gamma.format''] (Inl (JObj ?props))) 0 =
      (Inr [''gamma.format''], 0)"
    by (rule scripted_getCommands)
  have registered: "''gamma.format'' \<in> set [''gamma.format'']"
    by simp
  have invoked: "executeCommand (scripted_host [''gamma.format''] (Inl (JObj ?props)))
      ''gamma.format'' 0 = (Inl (JObj ?props), 1)"
    by (simp add: scripted_executeCommand)
  have carried: "map_of ?props ''message'' = Some (JStr ''Argument 'uri' is required'')"
    by simp
  show ?thesis
    by (rule analyzeCommand_invocation_fails [OF enum registered invoked carried])
qed

section \<open>The optional field\<close>

text \<open>
  C4, refuted as stated. The command \<open>gamma.format\<close> is registered and its invocation fails
  with an object that has no \<open>message\<close> (here \<^verbatim>\<open>{code: 42}\<close>). The result has
  \<open>exists = true\<close> and \<open>canExecuteWithoutArgs = false\<close>, and its \<open>errorMessage\<close> holds
  \<^verbatim>\<open>undefined\<close>: read as an optional string, the field is absent.
\<close>

theorem errorMessage_present_counterexample:
  "fst (analyzeCommand (scripted_host [''gamma.format''] (Inl (JObj [(''code'', JNum 42)])))
          ''gamma.format'' 0) =
     Inr \<lparr>exists = True, canExecuteWithoutArgs = False, errorMessage = Some JUndefined\<rparr>
   \<and> \<not> (errorMessage_present
            \<lparr>exists = True, canExecuteWithoutArgs = False, errorMessage = Some JUndefined\<rparr>
          \<longleftrightarrow>
          exists \<lparr>exists = True, canExecuteWithoutArgs = False, errorMessage = Some JUndefined\<rparr>
          \<and> \<not> canExecuteWithoutArgs
                \<lparr>exists = True, canExecuteWithoutArgs = False, errorMessage = Some JUndefined\<rparr>)"
  by (simp add: analyzeCommand_def scripted_host_def errorMessage_present_def
      read_errorMessage_def)

text \<open>
  C4, as amended. For every result \<^verbatim>\<open>analyzeCommand\<close> returns: the result object has an
  \<open>errorMessage\<close> property if and only if \<open>exists\<close> is true and \<open>canExecuteWithoutArgs\<close>
  is false; the field holds a value only in that case; and in that case the invocation
  was attempted and failed, and the field reads as the \<open>message\<close> of the thrown value,
  which is \<^verbatim>\<open>undefined\<close> when the thrown value carries none.
\<close>

theorem errorMessage_field_iff:
  assumes "fst (analyzeCommand h commandId s) = Inr r"
  shows "(errorMessage r \<noteq> None \<longleftrightarrow> exists r \<and> \<not> canExecuteWithoutArgs r)
       \<and> (errorMessage_present r \<longrightarrow> exists r \<and> \<not> canExecuteWithoutArgs r)
       \<and> (exists r \<and> \<not> canExecuteWithoutArgs r \<longrightarrow>
            (\<exists>allCommands s1 error s2.
               getCommands h s = (Inr allCommands, s1)
               \<and> commandId \<in> set allCommands
               \<and> executeCommand h commandId s1 = (Inl error, s2)
               \<and> message_of error = Inr (read_errorMessage r)))"
proof -
  obtain g s1 where enum: "getCommands h s = (g, s1)"
    by (cases "getCommands h s")
  show ?thesis
  proof (cases g)
    case (Inl e)
    with enum assms show ?thesis
      by (simp add: analyzeCommand_unreachable)
  next
    case (Inr allCommands)
    note listed = enum [unfolded Inr]
    show ?thesis
    proof (cases "commandId \<in> set allCommands")
      case False
      from analyzeCommand_absent [OF listed False] assms show ?thesis
        by (auto simp: errorMessage_present_def read_errorMessage_def)
    next
      case True
      obtain x s2 where inv: "executeCommand h commandId s1 = (x, s2)"
        by (cases "executeCommand h commandId s1")
      show ?thesis
      proof (cases x)
        case (Inr v)
        from analyzeCommand_resolved [OF listed True inv [unfolded Inr]] assms show ?thesis
          by (auto simp: errorMessage_present_def read_errorMessage_def)
      next
        case (Inl error)
        note failed = inv [unfolded Inl]
        from analyzeCommand_rejected [OF listed True failed] assms
        obtain m where m: "message_of error = Inr m"
          and r: "r = \<lparr>exists = True, canExecuteWithoutArgs = False, errorMessage = Some m\<rparr>"
          by (cases "message_of error") auto
        from r have "read_errorMessage r = m"
          by (simp add: read_errorMessage_def)
        with m listed True failed r show ?thesis
          by auto
      qed
    qed
  qed
qed

theorem errorMessage_field_iff_witness:
  "errorMessage \<lparr>exists = True, canExecuteWithoutArgs = False, errorMessage = Some (JStr ''busy'')\<rparr>
     \<noteq> None
   \<and> errorMessage_present
       \<lparr>exists = True, canExecuteWithoutArgs = False, errorMessage = Some (JStr ''busy'')\<rparr>
   \<and> (\<exists>allCommands s1 error s2.
         getCommands (scripted_host [''delta.save''] (Inl (JObj [(''message'', JStr ''busy'')]))) 0
           = (Inr allCommands, s1)
         \<and> ''delta.save'' \<in> set allCommands
         \<and> executeCommand
             (scripted_host [''delta.save''] (Inl (JObj [(''message'', JStr ''busy'')])))
             ''delta.save'' s1 = (Inl error, s2)
         \<and> message_of error = Inr (JStr ''busy''))"
proof -
  let ?h = "scripted_host [''delta.save''] (Inl (JObj [(''message'', JStr ''busy'')]))"
  let ?r = "\<lparr>exists = True, canExecuteWithoutArgs = False, errorMessage = Some (JStr ''busy'')\<rparr>"
  have returned: "fst (analyzeCommand ?h ''delta.save'' 0) = Inr ?r"
    by (simp add: analyzeCommand_def scripted_host_def)
  have flags: "exists ?r \<and> \<not> canExecuteWithoutArgs ?r"
    by simp
  have reads: "read_errorMessage ?r = JStr ''busy''"
    by (simp add: read_errorMessage_def)
  from errorMessage_field_iff [OF returned] flags reads show ?thesis
    by (simp add: errorMessage_present_def)
qed

section \<open>What leaves the function as a failure\<close>

text \<open>
  When \<^verbatim>\<open>analyzeCommand\<close> raises: the enumeration rejected, or the invocation of a
  registered identifier rejected with \<^verbatim>\<open>undefined\<close> or \<^verbatim>\<open>null\<close>.
\<close>

lemma analyzeCommand_raises_iff:
  "fst (analyzeCommand h commandId s) = Inl t \<longleftrightarrow>
     (\<exists>e s1. getCommands h s = (Inl e, s1) \<and> t = Rejection e)
   \<or> (\<exists>allCommands s1 error s2.
         getCommands h s = (Inr allCommands, s1) \<and> commandId \<in> set allCommands
         \<and> executeCommand h commandId s1 = (Inl error, s2)
         \<and> (error = JUndefined \<or> error = JNull) \<and> t = TypeError)"
proof -
  obtain g s1 where enum: "getCommands h s = (g, s1)"
    by (cases "getCommands h s")
  show ?thesis
  proof (cases g)
    case (Inl e)
    with enum show ?thesis
      by (auto simp: analyzeCommand_unreachable)
  next
    case (Inr allCommands)
    note listed = enum [unfolded Inr]
    show ?thesis
    proof (cases "commandId \<in> set allCommands")
      case False
      from analyzeCommand_absent [OF listed False] listed False show ?thesis
        by auto
    next
      case True
      obtain x s2 where inv: "executeCommand h commandId s1 = (x, s2)"
        by (cases "executeCommand h commandId s1")
      show ?thesis
      proof (cases x)
        case (Inr v)
        from analyzeCommand_resolved [OF listed True inv [unfolded Inr]] listed inv Inr
        show ?thesis
          by auto
      next
        case (Inl error)
        from analyzeCommand_rejected [OF listed True inv [unfolded Inl]] listed True inv Inl
        show ?thesis
          by (cases "message_of error") (auto simp: message_of_nullish)
      qed
    qed
  qed
qed

text \<open>
  C5, on the code. The enumeration resolves with \<open>alpha.run\<close>; the command rejects with
  \<^verbatim>\<open>undefined\<close> (a handler that ends in \<^verbatim>\<open>Promise.reject()\<close>). The \<^verbatim>\<open>catch\<close> clause
  receives the value, reads its \<open>message\<close>, and the \<^verbatim>\<open>TypeError\<close> of that read leaves
  \<^verbatim>\<open>analyzeCommand\<close>: it raises although the enumeration did not fail, and the failure
  of the invocation is not turned into an \<open>errorMessage\<close>.
\<close>

theorem analyzeCommand_raises_on_rejection_with_undefined:
  "getCommands (scripted_host [''alpha.run''] (Inl JUndefined)) 0 = (Inr [''alpha.run''], 0)
   \<and> analyzeCommand (scripted_host [''alpha.run''] (Inl JUndefined)) ''alpha.run'' 0 =
       (Inl TypeError, [GetCommands, ExecuteCommand ''alpha.run''], 1)"
  by (simp add: analyzeCommand_def scripted_host_def)

section \<open>Failures without a message\<close>

text \<open>
  Whenever \<open>message\<close> of the thrown value can be read, what is read becomes the
  \<open>errorMessage\<close> of the result: \<^verbatim>\<open>undefined\<close> for an object without the property or
  for a thrown primitive, the empty string for an error made without a message.
\<close>

lemma analyzeCommand_message_read:
  assumes "getCommands h s = (Inr allCommands, s1)"
    and "commandId \<in> set allCommands"
    and "executeCommand h commandId s1 = (Inl error, s2)"
    and "message_of error = Inr m"
  shows "analyzeCommand h commandId s =
           (Inr \<lparr>exists = True, canExecuteWithoutArgs = False, errorMessage = Some m\<rparr>,
            [GetCommands, ExecuteCommand commandId], s2)"
  using analyzeCommand_rejected [OF assms(1-3)] assms(4) by simp

text \<open>
  C6, on the code. The enumeration resolves with \<open>vscode.open\<close>; the command rejects with
  \<^verbatim>\<open>null\<close>, a failure that carries no message. The \<^verbatim>\<open>catch\<close> clause reads \<open>message\<close> of
  the caught \<^verbatim>\<open>null\<close>, the read raises, and the \<^verbatim>\<open>TypeError\<close> leaves \<^verbatim>\<open>analyzeCommand\<close>:
  no result is returned, where the claim has \<open>exists = true\<close>,
  \<open>canExecuteWithoutArgs = false\<close> and an empty or absent \<open>errorMessage\<close>.
\<close>

theorem analyzeCommand_raises_on_rejection_with_null:
  "message_of JNull = Inl TypeError
   \<and> analyzeCommand (scripted_host [''vscode.open''] (Inl JNull)) ''vscode.open'' 0 =
       (Inl TypeError, [GetCommands, ExecuteCommand ''vscode.open''], 1)"
  by (simp add: analyzeCommand_def scripted_host_def)

section \<open>Listing the commands\<close>

text \<open>
  C7. \<^verbatim>\<open>getAllCommands\<close> returns the sequence the registry resolves with, entry for entry,
  in the registry's order and with its duplicates, after one call of the enumeration;
  when the enumeration rejects, \<^verbatim>\<open>getAllCommands\<close> raises that rejection.
\<close>

theorem getAllCommands_as_reported:
  "(getCommands h s = (Inr allCommands, s1) \<longrightarrow>
      getAllCommands h s = (Inr allCommands, [GetCommands], s1))
   \<and> (getCommands h s = (Inl e, s1) \<longrightarrow>
      getAllCommands h s = (Inl (Rejection e), [GetCommands], s1))"
  by (simp add: getAllCommands_def)

theorem getAllCommands_as_reported_witness:
  "getAllCommands (scripted_host [''b.two'', ''a.one'', ''b.two''] (Inr JNull)) 0 =
     (Inr [''b.two'', ''a.one'', ''b.two''], [GetCommands], 0)
   \<and> getAllCommands (unreachable_host (JStr ''host gone'')) 0 =
     (Inl (Rejection (JStr ''host gone'')), [GetCommands], 0)"
proof -
  have listed: "getCommands (scripted_host [''b.two'', ''a.one'', ''b.two''] (Inr JNull)) 0 =
      (Inr [''b.two'', ''a.one'', ''b.two''], 0)"
    by (rule scripted_getCommands)
  have gone: "getCommands (unreachable_host (JStr ''host gone'')) 0 = (Inl (JStr ''host gone''), 0)"
    by (rule unreachable_getCommands)
  from getAllCommands_as_reported
    [of "scripted_host [''b.two'', ''a.one'', ''b.two''] (Inr JNull)" 0
        "[''b.two'', ''a.one'', ''b.two'']" 0 "JStr ''host gone''"]
    listed
  have first: "getAllCommands (scripted_host [''b.two'', ''a.one'', ''b.two''] (Inr JNull)) 0 =
      (Inr [''b.two'', ''a.one'', ''b.two''], [GetCommands], 0)"
    by blast
  from getAllCommands_as_reported
    [of "unreachable_host (JStr ''host gone'')" 0 "[]" 0 "JStr ''host gone''"]
    gone
  have second: "getAllCommands (unreachable_host (JStr ''host gone'')) 0 =
      (Inl (Rejection (JStr ''host gone'')), [GetCommands], 0)"
    by blast
  from first second show ?thesis
    by (rule conjI)
qed

section \<open>The identifier is not inspected\<close>



section \<open>Only membership matters\<close>

text \<open>
  C9. The enumeration enters \<^verbatim>\<open>analyzeCommand\<close> only through whether the identifier is a
  member of it. Two hosts that invoke alike and whose enumerations, from the same state,
  agree on the membership of the identifier (as any reordering or duplication of the
  entries does) give the same result, the same calls and the same final state.
\<close>

theorem analyzeCommand_membership_only:
  assumes "getCommands h s = (Inr cmds, s1)"
    and "getCommands h' s = (Inr cmds', s1)"
    and "executeCommand h' = executeCommand h"
    and "commandId \<in> set cmds' \<longleftrightarrow> commandId \<in> set cmds"
  shows "analyzeCommand h' commandId s = analyzeCommand h commandId s"
  using assms by (simp add: analyzeCommand_def array_includes_iff)

theorem analyzeCommand_membership_only_witness:
  "analyzeCommand
     (scripted_host [''b.two'', ''a.one'', ''b.two'', ''a.one'']
        (Inl (JObj [(''message'', JStr ''no'')])))
     ''b.two'' 0 =
   analyzeCommand
     (scripted_host [''a.one'', ''b.two''] (Inl (JObj [(''message'', JStr ''no'')])))
     ''b.two'' 0"
proof -
  let ?out = "Inl (JObj [(''message'', JStr ''no'')]) :: js_value + js_value"
  let ?h = "scripted_host [''a.one'', ''b.two''] ?out"
  let ?h' = "scripted_host [''b.two'', ''a.one'', ''b.two'', ''a.one''] ?out"
  have enum: "getCommands ?h 0 = (Inr [''a.one'', ''b.two''], 0)"
    by (rule scripted_getCommands)
  have enum': "getCommands ?h' 0 = (Inr [''b.two'', ''a.one'', ''b.two'', ''a.one''], 0)"
    by (rule scripted_getCommands)
  have same_invoker: "executeCommand ?h' = executeCommand ?h"
    by (simp add: scripted_host_def)
  have same_membership:
    "''b.two'' \<in> set [''b.two'', ''a.one'', ''b.two'', ''a.one'']
       \<longleftrightarrow> ''b.two'' \<in> set [''a.one'', ''b.two'']"
    by simp
  show ?thesis
    by (rule analyzeCommand_membership_only [OF enum enum' same_invoker same_membership])
qed

section \<open>Thrown values that are not objects\<close>

text \<open>
  C10, refuted as stated. The string \<open>boom\<close> is not an object, and a command that throws
  it does not make \<^verbatim>\<open>analyzeCommand\<close> raise: the \<open>message\<close> of a string reads as
  \<^verbatim>\<open>undefined\<close>, and a result is returned.
\<close>

theorem thrown_primitive_counterexample:
  "\<not> is_object (JStr ''boom'')
   \<and> analyzeCommand (scripted_host [''alpha.run''] (Inl (JStr ''boom''))) ''alpha.run'' 0 =
       (Inr \<lparr>exists = True, canExecuteWithoutArgs = False, errorMessage = Some JUndefined\<rparr>,
        [GetCommands, ExecuteCommand ''alpha.run''], 1)"
  by (simp add: analyzeCommand_def scripted_host_def)

text \<open>
  C10, as amended. When the invocation of a registered identifier fails with the thrown
  value \<^verbatim>\<open>null\<close> or \<^verbatim>\<open>undefined\<close>, \<^verbatim>\<open>analyzeCommand\<close> returns no result: reading
  \<open>message\<close> of the caught value raises a \<^verbatim>\<open>TypeError\<close>, which leaves the function after
  the enumeration and the invocation.
\<close>

theorem analyzeCommand_thrown_nullish:
  assumes "getCommands h s = (Inr allCommands, s1)"
    and "commandId \<in> set allCommands"
    and "executeCommand h commandId s1 = (Inl error, s2)"
    and "error = JNull \<or> error = JUndefined"
  shows "analyzeCommand h commandId s =
           (Inl TypeError, [GetCommands, ExecuteCommand commandId], s2)"
  using analyzeCommand_rejected [OF assms(1-3)] assms(4) by auto

theorem analyzeCommand_thrown_nullish_witness:
  "analyzeCommand (scripted_host [''alpha.run''] (Inl JNull)) ''alpha.run'' 0 =
     (Inl TypeError, [GetCommands, ExecuteCommand ''alpha.run''], 1)"
proof -
  have enum: "getCommands (scripted_host [''alpha.run''] (Inl JNull)) 0 =
      (Inr [''alpha.run''], 0)"
    by (rule scripted_getCommands)
  have registered: "''alpha.run'' \<in> set [''alpha.run'']"
    by simp
  have thrown: "executeCommand (scripted_host [''alpha.run''] (Inl JNull)) ''alpha.run'' 0 =
      (Inl JNull, 1)"
    by (simp add: scripted_executeCommand)
  have nullish: "JNull = JNull \<or> JNull = JUndefined"
    by simp
  show ?thesis
    by (rule analyzeCommand_thrown_nullish [OF enum registered thrown nullish])
qed

end
